theory Spec2Isabelle
  imports Main
begin

section \<open>The useGoogleSheets hook (src/hooks/use-google.sheet.tsx)\<close>

text \<open>
  The hook keeps three pieces of React state (\<open>isSubmitting\<close>, \<open>error\<close>, \<open>success\<close>)
  and offers two operations, \<open>reset\<close> and \<open>submitToSheet\<close>. The embedding passes the
  state explicitly, records every effect that leaves the hook (the request, the callbacks,
  the console line) in a trace, and returns the way the promise of the \<open>async\<close> function
  settles as a value.
\<close>

subsection \<open>JavaScript values\<close>

text \<open>
  Strings are byte strings: a JavaScript string is represented by its UTF-8 encoding
  (a lone surrogate by the three bytes of its code point). The empty string is the empty
  list, and every string literal of the source, being ASCII, is written as it stands.
\<close>

text \<open>
  A value that the code lets escape through \<open>throw\<close>: an instance of \<open>Error\<close> with its
  \<open>message\<close>, or anything else.
\<close>

datatype thrown = ErrorObj string | NonError

text \<open>
  The values a record can hold. The source looks at a value in two ways only: its
  truthiness (\<open>!v\<close>, \<open>v || ""\<close>) and its string form (\<open>String(v)\<close>). A number (or
  bigint) is represented by its string form, whatever its size and whether or not it is
  an integer: \<open>JNum ''0''\<close>, \<open>JNum ''1e+21''\<close>, \<open>JNum ''0.5''\<close>, \<open>JNum ''NaN''\<close>,
  \<open>JNum ''Infinity''\<close>. A number is falsy exactly when it is \<open>+0\<close>, \<open>-0\<close> or \<open>NaN\<close>,
  and these are the numbers whose string form is \<open>0\<close> or \<open>NaN\<close>. Any other value (an
  object, array, function or symbol) is truthy; it is represented by what \<open>String\<close> does
  on it: a string, or a throw (an object without a usable \<open>toString\<close>).
\<close>

datatype jsval =
    JUndefined
  | JNull
  | JBool bool
  | JNum string
  | JStr string
  | JObj "thrown + string"

fun truthy :: "jsval \<Rightarrow> bool" where
  "truthy JUndefined = False"
| "truthy JNull = False"
| "truthy (JBool b) = b"
| "truthy (JNum n) = (n \<noteq> ''0'' \<and> n \<noteq> ''NaN'')"
| "truthy (JStr s) = (s \<noteq> [])"
| "truthy (JObj r) = True"

text \<open>\<open>String(v)\<close>: the string form, or the throw of the coercion.\<close>

fun js_String :: "jsval \<Rightarrow> thrown + string" where
  "js_String JUndefined = Inr ''undefined''"
| "js_String JNull = Inr ''null''"
| "js_String (JBool b) = Inr (if b then ''true'' else ''false'')"
| "js_String (JNum n) = Inr n"
| "js_String (JStr s) = Inr s"
| "js_String (JObj r) = r"

text \<open>\<open>v || ""\<close>\<close>

definition or_empty :: "jsval \<Rightarrow> jsval" where
  "or_empty v = (if truthy v then v else JStr [])"

subsection \<open>Records\<close>

text \<open>
  A record is a plain object (an object literal, the result of \<open>JSON.parse\<close>): the list
  of its own properties, all enumerable, in the order in which they were inserted, with
  \<open>Object.prototype\<close> as its prototype.
\<close>

type_synonym jsrecord = "(string \<times> jsval) list"

text \<open>
  The properties that a plain object inherits from \<open>Object.prototype\<close>: built-in
  functions, whose string form is never blank, and \<open>__proto__\<close>, which reads as
  \<open>Object.prototype\<close> itself.
\<close>

definition object_prototype :: "string \<Rightarrow> jsval option" where
  "object_prototype name =
     (if name = ''constructor'' then Some (JObj (Inr ''function Object() { [native code] }''))
      else if name \<in> set [''hasOwnProperty'', ''isPrototypeOf'', ''propertyIsEnumerable'',
                           ''toLocaleString'', ''toString'', ''valueOf'',
                           ''__defineGetter__'', ''__defineSetter__'',
                           ''__lookupGetter__'', ''__lookupSetter__'']
      then Some (JObj (Inr (''function '' @ name @ ''() { [native code] }'')))
      else if name = ''__proto__'' then Some (JObj (Inr ''[object Object]''))
      else None)"

text \<open>
  \<open>data[field]\<close>: the own property, else the inherited one, else \<open>undefined\<close>.
\<close>

definition get_prop :: "jsrecord \<Rightarrow> string \<Rightarrow> jsval" where
  "get_prop data field =
     (case map_of data field of
        Some v \<Rightarrow> v
      | None \<Rightarrow> (case object_prototype field of Some v \<Rightarrow> v | None \<Rightarrow> JUndefined))"

text \<open>
  An array index is the decimal numeral, without leading zeros, of an integer from 0 to
  \<open>2^32 - 2\<close>.
\<close>

definition is_digit :: "char \<Rightarrow> bool" where
  "is_digit c = (c \<in> set ''0123456789'')"

definition digit_val :: "char \<Rightarrow> nat" where
  "digit_val c = length (takeWhile (\<lambda>d. d \<noteq> c) ''0123456789'')"

definition array_index :: "string \<Rightarrow> nat option" where
  "array_index s =
     (let n = foldl (\<lambda>n c. 10 * n + digit_val c) 0 s in
      if s \<noteq> [] \<and> list_all is_digit s \<and> (s = ''0'' \<or> hd s \<noteq> CHR ''0'') \<and> n \<le> 4294967294
      then Some n else None)"

definition index_key :: "string \<times> jsval \<Rightarrow> nat" where
  "index_key e = (case array_index (fst e) of None \<Rightarrow> 0 | Some n \<Rightarrow> n)"

text \<open>
  \<open>Object.entries(data)\<close>: the properties whose key is an array index first, by
  ascending index, then the others in insertion order.
\<close>

definition object_entries :: "jsrecord \<Rightarrow> jsrecord" where
  "object_entries data =
     sort_key index_key (filter (\<lambda>e. array_index (fst e) \<noteq> None) data) @
     filter (\<lambda>e. array_index (fst e) = None) data"

subsection \<open>trim\<close>

text \<open>
  The white space and line terminators of JavaScript, each in its UTF-8 encoding: tab,
  line feed, vertical tab, form feed, carriage return, space, U+00A0, U+1680, U+2000 to
  U+200A, U+2028, U+2029, U+202F, U+205F, U+3000 and U+FEFF.
\<close>

definition white_space :: "string list" where
  "white_space =
     [[CHR 0x09], [CHR 0x0A], [CHR 0x0B], [CHR 0x0C], [CHR 0x0D], [CHR 0x20],
      [CHR 0xC2, CHR 0xA0],
      [CHR 0xE1, CHR 0x9A, CHR 0x80],
      [CHR 0xE2, CHR 0x80, CHR 0x80], [CHR 0xE2, CHR 0x80, CHR 0x81],
      [CHR 0xE2, CHR 0x80, CHR 0x82], [CHR 0xE2, CHR 0x80, CHR 0x83],
      [CHR 0xE2, CHR 0x80, CHR 0x84], [CHR 0xE2, CHR 0x80, CHR 0x85],
      [CHR 0xE2, CHR 0x80, CHR 0x86], [CHR 0xE2, CHR 0x80, CHR 0x87],
      [CHR 0xE2, CHR 0x80, CHR 0x88], [CHR 0xE2, CHR 0x80, CHR 0x89],
      [CHR 0xE2, CHR 0x80, CHR 0x8A],
      [CHR 0xE2, CHR 0x80, CHR 0xA8], [CHR 0xE2, CHR 0x80, CHR 0xA9],
      [CHR 0xE2, CHR 0x80, CHR 0xAF],
      [CHR 0xE2, CHR 0x81, CHR 0x9F],
      [CHR 0xE3, CHR 0x80, CHR 0x80],
      [CHR 0xEF, CHR 0xBB, CHR 0xBF]]"

text \<open>
  The number of bytes of the pattern that \<open>s\<close> starts with (0 when it starts with none),
  and the removal of such patterns from the start of \<open>s\<close> for as long as there is one.
\<close>

definition ws_len :: "string list \<Rightarrow> string \<Rightarrow> nat" where
  "ws_len ps s =
     (case find (\<lambda>p. take (length p) s = p) ps of None \<Rightarrow> 0 | Some p \<Rightarrow> length p)"

function strip :: "string list \<Rightarrow> string \<Rightarrow> string" where
  "strip ps s = (if s = [] \<or> ws_len ps s = 0 then s else strip ps (drop (ws_len ps s) s))"
  by pat_completeness auto
termination
  by (relation "measure (\<lambda>(ps, s). length s)") auto

declare strip.simps [simp del]

text \<open>
  \<open>s.trim()\<close> removes white space and line terminators at both ends: at the start, and,
  on the reversed string with the reversed patterns, at the end.
\<close>

definition trim :: "string \<Rightarrow> string" where
  "trim s = rev (strip (map rev white_space) (rev (strip white_space s)))"

subsection \<open>State, options, platform\<close>

record hook_state =
  isSubmitting :: bool
  error :: "string option"
  success :: bool

text \<open>The three \<open>useState\<close> initial values.\<close>

definition initial_state :: hook_state where
  "initial_state = \<lparr>isSubmitting = False, error = None, success = False\<rparr>"

text \<open>
  A parsed URL: everything before the query, and the list behind \<open>url.searchParams\<close>.
\<close>

record url =
  href :: string
  searchParams :: "(string \<times> string) list"

datatype event =
    Fetch url
  | OnSuccess jsrecord
  | OnError thrown
  | ConsoleError thrown

record world =
  ui :: hook_state
  trace :: "event list"

text \<open>
  The options of the hook. A callback is known by how a call of it ends: normally
  (\<open>None\<close>) or by throwing. \<open>transformData\<close> returns the mapping to send, or throws.
\<close>

record options =
  onSuccess :: "(jsrecord \<Rightarrow> thrown option) option"
  onError :: "(thrown \<Rightarrow> thrown option) option"
  validateRequired :: "string list"
  transformData :: "(jsrecord \<Rightarrow> thrown + jsrecord) option"

text \<open>
  What the hook takes from its platform: the environment variable
  \<open>NEXT_PUBLIC_GOOGLE_SCRIPT_URL\<close>, the \<open>URL\<close> constructor (which throws on a string
  it cannot parse) and \<open>fetch\<close> on the serialized URL, whose promise resolves, rejects
  or never settles.
\<close>

datatype fetch_outcome = Resolves | Rejects thrown | NeverSettles

record platform =
  script_url :: "string option"
  newURL :: "string \<Rightarrow> thrown + url"
  fetch :: "url \<Rightarrow> fetch_outcome"

text \<open>How the promise returned by \<open>submitToSheet\<close> ends.\<close>

datatype promise = Fulfilled | Rejected thrown | Pending

subsection \<open>State setters and the trace\<close>

definition setIsSubmitting :: "bool \<Rightarrow> world \<Rightarrow> world" where
  "setIsSubmitting b w = w\<lparr>ui := (ui w)\<lparr>isSubmitting := b\<rparr>\<rparr>"

definition setError :: "string option \<Rightarrow> world \<Rightarrow> world" where
  "setError e w = w\<lparr>ui := (ui w)\<lparr>error := e\<rparr>\<rparr>"

definition setSuccess :: "bool \<Rightarrow> world \<Rightarrow> world" where
  "setSuccess b w = w\<lparr>ui := (ui w)\<lparr>success := b\<rparr>\<rparr>"

definition emit :: "event \<Rightarrow> world \<Rightarrow> world" where
  "emit e w = w\<lparr>trace := trace w @ [e]\<rparr>"

subsection \<open>reset\<close>

definition reset :: "world \<Rightarrow> world" where
  "reset w = setSuccess False (setError None w)"

subsection \<open>validateData\<close>

text \<open>The test \<open>!data[field] || String(data[field]).trim() === ""\<close>.\<close>

definition field_blank :: "jsrecord \<Rightarrow> string \<Rightarrow> thrown + bool" where
  "field_blank data field =
     (if \<not> truthy (get_prop data field) then Inr True
      else case js_String (get_prop data field) of
             Inl t \<Rightarrow> Inl t
           | Inr s \<Rightarrow> Inr (trim s = []))"

fun validate_fields :: "jsrecord \<Rightarrow> string list \<Rightarrow> thrown + string option" where
  "validate_fields data [] = Inr None"
| "validate_fields data (field # rest) =
     (case field_blank data field of
        Inl t \<Rightarrow> Inl t
      | Inr b \<Rightarrow> if b then Inr (Some (field @ '' is required''))
                else validate_fields data rest)"

definition validateData :: "options \<Rightarrow> jsrecord \<Rightarrow> thrown + string option" where
  "validateData opts data = validate_fields data (validateRequired opts)"

subsection \<open>submitToSheet\<close>

text \<open>Truthiness of a \<open>string | null\<close> and of a \<open>string | undefined\<close>.\<close>

definition truthy_str :: "string option \<Rightarrow> bool" where
  "truthy_str s = (case s of None \<Rightarrow> False | Some m \<Rightarrow> m \<noteq> [])"

text \<open>
  The \<open>forEach\<close> over \<open>Object.entries(finalData)\<close>: one \<open>append\<close> per entry, in
  the order of the entries; a coercion that throws ends the loop.
\<close>

definition append_param :: "url \<Rightarrow> string \<Rightarrow> string \<Rightarrow> url" where
  "append_param u k s = u\<lparr>searchParams := searchParams u @ [(k, s)]\<rparr>"

fun append_each :: "url \<Rightarrow> jsrecord \<Rightarrow> thrown + url" where
  "append_each u [] = Inr u"
| "append_each u ((k, v) # es) =
     (case js_String (or_empty v) of
        Inl t \<Rightarrow> Inl t
      | Inr s \<Rightarrow> append_each (append_param u k s) es)"

definition append_entries :: "url \<Rightarrow> jsrecord \<Rightarrow> thrown + url" where
  "append_entries u finalData = append_each u (object_entries finalData)"

text \<open>How the \<open>try\<close> block ends.\<close>

datatype completion = Normal | Threw thrown | Suspended

definition call_onSuccess :: "options \<Rightarrow> jsrecord \<Rightarrow> world \<Rightarrow> completion \<times> world" where
  "call_onSuccess opts data w =
     (case onSuccess opts of
        None \<Rightarrow> (Normal, w)
      | Some cb \<Rightarrow>
          (case cb data of
             None \<Rightarrow> (Normal, emit (OnSuccess data) w)
           | Some t \<Rightarrow> (Threw t, emit (OnSuccess data) w)))"

definition try_block :: "platform \<Rightarrow> options \<Rightarrow> string \<Rightarrow> jsrecord \<Rightarrow> world \<Rightarrow> completion \<times> world" where
  "try_block pf opts scriptUrl data w =
     (case newURL pf scriptUrl of
        Inl t \<Rightarrow> (Threw t, w)
      | Inr u \<Rightarrow>
          (case (case transformData opts of None \<Rightarrow> Inr data | Some f \<Rightarrow> f data) of
             Inl t \<Rightarrow> (Threw t, w)
           | Inr finalData \<Rightarrow>
               (case append_entries u finalData of
                  Inl t \<Rightarrow> (Threw t, w)
                | Inr u' \<Rightarrow>
                    (case fetch pf u' of
                       Rejects t \<Rightarrow> (Threw t, emit (Fetch u') w)
                     | NeverSettles \<Rightarrow> (Suspended, emit (Fetch u') w)
                     | Resolves \<Rightarrow>
                         call_onSuccess opts data (setSuccess True (emit (Fetch u') w))))))"

definition errorMessage :: "thrown \<Rightarrow> string" where
  "errorMessage err = (case err of ErrorObj m \<Rightarrow> m | NonError \<Rightarrow> ''Failed to submit data'')"

text \<open>
  The \<open>catch\<close> block; the result is the throw of \<open>onError\<close>, if it throws.
\<close>

definition catch_block :: "options \<Rightarrow> thrown \<Rightarrow> world \<Rightarrow> thrown option \<times> world" where
  "catch_block opts err w =
     (let w1 = setError (Some (errorMessage err)) (emit (ConsoleError err) w) in
      case onError opts of
        None \<Rightarrow> (None, w1)
      | Some cb \<Rightarrow>
          (let arg = (case err of ErrorObj m \<Rightarrow> err | NonError \<Rightarrow> ErrorObj (errorMessage err))
           in (cb arg, emit (OnError arg) w1)))"

definition config_missing :: string where
  "config_missing = ''Google Script URL not configured in environment variables''"

definition submitToSheet :: "platform \<Rightarrow> options \<Rightarrow> jsrecord \<Rightarrow> world \<Rightarrow> promise \<times> world" where
  "submitToSheet pf opts data w0 =
     (let w1 = setSuccess False (setError None (setIsSubmitting True w0)) in
      case validateData opts data of
        Inl t \<Rightarrow> (Rejected t, w1)
      | Inr validationError \<Rightarrow>
          if truthy_str validationError
          then (Fulfilled, setIsSubmitting False (setError validationError w1))
          else
            (case script_url pf of
               None \<Rightarrow> (Fulfilled, setIsSubmitting False (setError (Some config_missing) w1))
             | Some scriptUrl \<Rightarrow>
                 if scriptUrl = []
                 then (Fulfilled, setIsSubmitting False (setError (Some config_missing) w1))
                 else
                   (case try_block pf opts scriptUrl data w1 of
                      (Suspended, w2) \<Rightarrow> (Pending, w2)
                    | (Normal, w2) \<Rightarrow> (Fulfilled, setIsSubmitting False w2)
                    | (Threw err, w2) \<Rightarrow>
                        (case catch_block opts err w2 of
                           (None, w3) \<Rightarrow> (Fulfilled, setIsSubmitting False w3)
                         | (Some t, w3) \<Rightarrow> (Rejected t, setIsSubmitting False w3)))))"

subsection \<open>Reading the trace\<close>

text \<open>The URLs requested, the arguments of the \<open>onSuccess\<close> calls and of the \<open>onError\<close> calls.\<close>

fun fetched :: "event list \<Rightarrow> url list" where
  "fetched [] = []"
| "fetched (Fetch u # es) = u # fetched es"
| "fetched (e # es) = fetched es"

fun success_calls :: "event list \<Rightarrow> jsrecord list" where
  "success_calls [] = []"
| "success_calls (OnSuccess d # es) = d # success_calls es"
| "success_calls (e # es) = success_calls es"

fun error_calls :: "event list \<Rightarrow> thrown list" where
  "error_calls [] = []"
| "error_calls (OnError t # es) = t # error_calls es"
| "error_calls (e # es) = error_calls es"

subsection \<open>The specification's wording, for comparison\<close>

text \<open>
  The specification's parameters: one per key, in insertion order, the value in its string
  form, with the empty string for \<open>null\<close> and \<open>undefined\<close> (and for nothing else).
\<close>

definition spec_param_value :: "jsval \<Rightarrow> thrown + string" where
  "spec_param_value v = (if v = JNull \<or> v = JUndefined then Inr [] else js_String v)"

fun spec_params :: "jsrecord \<Rightarrow> thrown + (string \<times> string) list" where
  "spec_params [] = Inr []"
| "spec_params ((k, v) # es) =
     (case spec_param_value v of
        Inl t \<Rightarrow> Inl t
      | Inr s \<Rightarrow> (case spec_params es of Inl t \<Rightarrow> Inl t | Inr ps \<Rightarrow> Inr ((k, s) # ps)))"

text \<open>
  The specification's failing field: absent from the mapping, or present with a string
  form that trims to the empty string.
\<close>

definition spec_field_fails :: "jsrecord \<Rightarrow> string \<Rightarrow> bool" where
  "spec_field_fails data field =
     (case map_of data field of
        None \<Rightarrow> True
      | Some v \<Rightarrow> (case js_String v of Inl t \<Rightarrow> False | Inr s \<Rightarrow> trim s = []))"

subsection \<open>A concrete setting\<close>

text \<open>
  An endpoint that parses and a network that answers; no options; the state of a freshly
  mounted hook.
\<close>

definition ex_platform :: platform where
  "ex_platform =
     \<lparr>script_url = Some ''https://script.example/exec'',
      newURL = (\<lambda>s. Inr \<lparr>href = s, searchParams = []\<rparr>),
      fetch = (\<lambda>u. Resolves)\<rparr>"

definition ex_options :: options where
  "ex_options =
     \<lparr>onSuccess = None, onError = None, validateRequired = [], transformData = None\<rparr>"

definition ex_world :: world where
  "ex_world = \<lparr>ui = initial_state, trace = []\<rparr>"

section \<open>Auxiliary facts\<close>

lemmas setters = setIsSubmitting_def setError_def setSuccess_def emit_def

lemmas ex_defs = ex_platform_def ex_options_def ex_world_def initial_state_def

lemmas eval_defs = field_blank_def get_prop_def object_prototype_def or_empty_def
  trim_def strip.simps ws_len_def white_space_def

lemmas entries_defs = append_entries_def object_entries_def array_index_def is_digit_def
  digit_val_def index_key_def Let_def

lemmas run_defs = submitToSheet_def validateData_def truthy_str_def try_block_def
  call_onSuccess_def catch_block_def errorMessage_def config_missing_def Let_def
  append_param_def entries_defs

lemma hook_state_updates:
  "(r::hook_state)\<lparr>isSubmitting := a, error := b, success := c\<rparr> =
     \<lparr>isSubmitting = a, error = b, success = c\<rparr>"
  by (cases r) simp

lemma fetched_append: "fetched (xs @ ys) = fetched xs @ fetched ys"
  by (induction xs rule: fetched.induct) simp_all

lemma success_calls_append: "success_calls (xs @ ys) = success_calls xs @ success_calls ys"
  by (induction xs rule: success_calls.induct) simp_all

lemma error_calls_append: "error_calls (xs @ ys) = error_calls xs @ error_calls ys"
  by (induction xs rule: error_calls.induct) simp_all

lemma find_SomeD: "find P xs = Some x \<Longrightarrow> x \<in> set xs \<and> P x"
  by (induction xs) (auto split: if_splits)

subsection \<open>Validation\<close>

lemma validate_fields_message:
  "validate_fields data fs = Inr (Some m) \<Longrightarrow> \<exists>f\<in>set fs. m = f @ '' is required''"
  by (induction fs) (auto split: sum.splits if_splits)

text \<open>
  The loop reaches the fields before the first blank one (all of them when none is
  blank). When no coercion throws on these, it returns the message of the first blank
  field in the declared order, and null when there is none.
\<close>

lemma validate_fields_first:
  "\<forall>f\<in>set (takeWhile (\<lambda>f. field_blank data f \<noteq> Inr True) fs). \<not> isl (field_blank data f) \<Longrightarrow>
   validate_fields data fs =
     Inr (case find (\<lambda>f. field_blank data f = Inr True) fs of
            None \<Rightarrow> None | Some f \<Rightarrow> Some (f @ '' is required''))"
  by (induction fs) (auto split: sum.splits if_splits)

lemma validate_fields_find:
  "\<forall>f\<in>set fs. \<not> isl (field_blank data f) \<Longrightarrow>
   validate_fields data fs =
     Inr (case find (\<lambda>f. field_blank data f = Inr True) fs of
            None \<Rightarrow> None | Some f \<Rightarrow> Some (f @ '' is required''))"
  by (rule validate_fields_first) (auto dest: set_takeWhileD)

lemma validateData_total:
  "\<forall>f\<in>set (validateRequired opts). \<not> isl (field_blank data f) \<Longrightarrow>
   validateData opts data = Inr None \<or>
   (\<exists>m. validateData opts data = Inr (Some m) \<and> m \<noteq> [])"
  unfolding validateData_def
  by (induction "validateRequired opts" arbitrary: opts)
     (auto simp: validate_fields_find split: option.splits)

lemma field_blank_iff:
  "field_blank data f = Inr True \<longleftrightarrow>
     \<not> truthy (get_prop data f) \<or> (\<exists>s. js_String (get_prop data f) = Inr s \<and> trim s = [])"
  by (auto simp: field_blank_def split: sum.splits)

lemma submit_validation_error:
  "validateData opts data = Inr (Some m) \<Longrightarrow> m \<noteq> [] \<Longrightarrow>
   submitToSheet pf opts data w =
     (Fulfilled, w\<lparr>ui := \<lparr>isSubmitting = False, error = Some m, success = False\<rparr>\<rparr>)"
  by (simp add: submitToSheet_def truthy_str_def setters)

subsection \<open>The try block\<close>

lemma object_entries_plain:
  "\<forall>e\<in>set data. array_index (fst e) = None \<Longrightarrow> object_entries data = data"
  by (simp add: object_entries_def filter_empty_conv filter_id_conv)

lemma set_object_entries: "set (object_entries data) = set data"
  by (auto simp: object_entries_def)

lemma length_object_entries: "length (object_entries data) = length data"
proof -
  have "length (filter (\<lambda>e. array_index (fst e) \<noteq> None) data) +
        length (filter (\<lambda>e. \<not> array_index (fst e) \<noteq> None) data) = length data"
    by (rule sum_length_filter_compl)
  then show ?thesis by (simp add: object_entries_def)
qed

lemma append_each_params:
  "list_all2 (\<lambda>(k, v) (k', s). k' = k \<and> js_String (or_empty v) = Inr s) es ps \<Longrightarrow>
   append_each u es = Inr (u\<lparr>searchParams := searchParams u @ ps\<rparr>)"
proof (induction es arbitrary: u ps)
  case Nil
  then show ?case by simp
next
  case (Cons e es)
  then obtain k v where e: "e = (k, v)" by (cases e)
  from Cons.prems obtain s ps' where ps: "ps = (k, s) # ps'" and
    s: "js_String (or_empty v) = Inr s" and
    rest: "list_all2 (\<lambda>(k, v) (k', s). k' = k \<and> js_String (or_empty v) = Inr s) es ps'"
    by (auto simp: e list_all2_Cons1)
  show ?case
    using Cons.IH [OF rest, of "append_param u k s"]
    by (simp add: e s ps append_param_def)
qed

lemma append_entries_params:
  "list_all2 (\<lambda>(k, v) (k', s). k' = k \<and> js_String (or_empty v) = Inr s)
     (object_entries fd) ps \<Longrightarrow>
   append_entries u fd = Inr (u\<lparr>searchParams := searchParams u @ ps\<rparr>)"
  unfolding append_entries_def by (rule append_each_params)

lemma params_keys:
  "list_all2 (\<lambda>(k, v) (k', s). k' = k \<and> js_String (or_empty v) = Inr s) es ps \<Longrightarrow>
   map fst ps = map fst es"
  by (induction rule: list_all2_induct) auto

lemma params_from_entries:
  "list_all2 (\<lambda>(k, v) (k', s). k' = k \<and> js_String (or_empty v) = Inr s) es ps \<Longrightarrow>
   \<forall>p\<in>set ps. \<exists>v. (fst p, v) \<in> set es \<and> js_String (or_empty v) = Inr (snd p)"
  by (induction rule: list_all2_induct) auto

text \<open>
  Once validation has passed and the endpoint is configured, \<open>submitToSheet\<close> is the
  \<open>try\<close> block run on the state left by the three writes at its start, followed by
  \<open>catch\<close> and \<open>finally\<close>.
\<close>

lemma submit_enters_try:
  assumes "validateData opts data = Inr None" "script_url pf = Some s" "s \<noteq> []"
  shows "submitToSheet pf opts data w =
     (case try_block pf opts s data
             (w\<lparr>ui := \<lparr>isSubmitting = True, error = None, success = False\<rparr>\<rparr>) of
        (Suspended, w2) \<Rightarrow> (Pending, w2)
      | (Normal, w2) \<Rightarrow> (Fulfilled, setIsSubmitting False w2)
      | (Threw err, w2) \<Rightarrow>
          (case catch_block opts err w2 of
             (None, w3) \<Rightarrow> (Fulfilled, setIsSubmitting False w3)
           | (Some t, w3) \<Rightarrow> (Rejected t, setIsSubmitting False w3)))"
  using assms by (simp add: submitToSheet_def truthy_str_def setters hook_state_updates)

lemma catch_block_result:
  "catch_block opts err w =
     ((case onError opts of None \<Rightarrow> None | Some cb \<Rightarrow> cb (ErrorObj (errorMessage err))),
      w\<lparr>ui := (ui w)\<lparr>error := Some (errorMessage err)\<rparr>,
        trace := trace w @ ConsoleError err #
                 (if onError opts = None then [] else [OnError (ErrorObj (errorMessage err))])\<rparr>)"
  by (cases err)
     (simp_all add: catch_block_def errorMessage_def setters Let_def split: option.splits)

lemma try_block_sends:
  assumes "newURL pf s = Inr u"
    and "(case transformData opts of None \<Rightarrow> Inr data | Some f \<Rightarrow> f data) = Inr fd"
    and "append_entries u fd = Inr u'"
  shows "try_block pf opts s data w =
     (case fetch pf u' of
        Rejects t \<Rightarrow> (Threw t, emit (Fetch u') w)
      | NeverSettles \<Rightarrow> (Suspended, emit (Fetch u') w)
      | Resolves \<Rightarrow> call_onSuccess opts data (setSuccess True (emit (Fetch u') w)))"
  using assms by (simp add: try_block_def)

lemma submit_fetches:
  assumes "validateData opts data = Inr None" "script_url pf = Some s" "s \<noteq> []"
    and "newURL pf s = Inr u"
    and "(case transformData opts of None \<Rightarrow> Inr data | Some f \<Rightarrow> f data) = Inr fd"
    and "append_entries u fd = Inr u'"
  shows "fetched (trace (snd (submitToSheet pf opts data w))) = fetched (trace w) @ [u']"
  unfolding submit_enters_try [OF assms(1-3)] try_block_sends [OF assms(4-6)]
  by (simp add: call_onSuccess_def catch_block_result setters fetched_append
      split: fetch_outcome.splits option.splits)

text \<open>
  What the \<open>try\<close> block can leave behind: the state it was given, or that state with
  \<open>success\<close> set; a throw after \<open>success\<close> was set is a throw of \<open>onSuccess\<close>.
\<close>

lemma try_block_state:
  assumes "try_block pf opts s data w1 = (c, w2)"
  shows "(c = Suspended \<and> ui w2 = ui w1) \<or>
         (c = Normal \<and> ui w2 = (ui w1)\<lparr>success := True\<rparr>) \<or>
         (\<exists>t. c = Threw t \<and>
            (ui w2 = ui w1 \<or>
             (ui w2 = (ui w1)\<lparr>success := True\<rparr> \<and>
              (\<exists>cb. onSuccess opts = Some cb \<and> cb data = Some t))))"
  using assms
  by (auto simp: try_block_def call_onSuccess_def setters
      split: sum.splits option.splits fetch_outcome.splits)

section \<open>Properties\<close>

subsection \<open>reset\<close>

text \<open>
  C9. From any state, \<open>reset\<close> sets \<open>error\<close> to null and \<open>success\<close> to false, leaves
  \<open>isSubmitting\<close> as it was, and has no other effect: the trace (requests, callback
  calls, console lines) is unchanged.
\<close>

theorem reset_clears_status:
  "error (ui (reset w)) = None \<and> success (ui (reset w)) = False \<and>
   isSubmitting (ui (reset w)) = isSubmitting (ui w) \<and> trace (reset w) = trace w \<and>
   reset w = w\<lparr>ui := (ui w)\<lparr>error := None, success := False\<rparr>\<rparr>"
  by (simp add: reset_def setSuccess_def setError_def)

subsection \<open>Validation and the configuration check\<close>

text \<open>
  C2, as the code has it. The test on a required field is on the value that
  \<open>data[field]\<close> reads: the field fails when that value is falsy (the field is absent
  and not inherited from \<open>Object.prototype\<close>, or it holds \<open>undefined\<close>, \<open>null\<close>,
  \<open>false\<close>, \<open>0\<close>, \<open>NaN\<close> or the empty string) or when its string form trims to the
  empty string. Provided that no coercion throws on a field that the loop reaches (the
  fields before the first failing one): validation fails exactly when some required
  field fails this test; on the first such field in declared order \<open>submitToSheet\<close>
  fulfils with \<open>error\<close> set to the field name followed by " is required",
  \<open>isSubmitting\<close> false, \<open>success\<close> false and the trace unchanged (no request, no
  callback); and a record whose required fields all read as truthy values with a
  non-empty trimmed string form passes.
\<close>

theorem validation_first_blank_field:
  assumes "\<forall>f\<in>set (takeWhile (\<lambda>f. field_blank data f \<noteq> Inr True) (validateRequired opts)).
             \<not> isl (field_blank data f)"
  shows "((\<exists>m. validateData opts data = Inr (Some m)) \<longleftrightarrow>
            (\<exists>f\<in>set (validateRequired opts).
               \<not> truthy (get_prop data f) \<or>
               (\<exists>s. js_String (get_prop data f) = Inr s \<and> trim s = []))) \<and>
         (\<forall>f. find (\<lambda>f. field_blank data f = Inr True) (validateRequired opts) = Some f \<longrightarrow>
            submitToSheet pf opts data w =
              (Fulfilled, w\<lparr>ui := \<lparr>isSubmitting = False, error = Some (f @ '' is required''),
                                   success = False\<rparr>\<rparr>)) \<and>
         ((\<forall>f\<in>set (validateRequired opts).
             truthy (get_prop data f) \<and>
             (\<exists>s. js_String (get_prop data f) = Inr s \<and> trim s \<noteq> [])) \<longrightarrow>
            validateData opts data = Inr None) \<and>
         (\<forall>f. map_of data f = None \<and> object_prototype f = None \<longrightarrow>
            field_blank data f = Inr True)"
proof -
  let ?fs = "validateRequired opts"
  let ?first = "find (\<lambda>f. field_blank data f = Inr True) ?fs"
  have v: "validateData opts data =
             Inr (case ?first of None \<Rightarrow> None | Some f \<Rightarrow> Some (f @ '' is required''))"
    unfolding validateData_def by (rule validate_fields_first [OF assms])
  have a: "(\<exists>m. validateData opts data = Inr (Some m)) \<longleftrightarrow>
            (\<exists>f\<in>set ?fs. field_blank data f = Inr True)"
    by (auto simp: v find_None_iff split: option.splits dest: find_SomeD)
  have b: "submitToSheet pf opts data w =
             (Fulfilled, w\<lparr>ui := \<lparr>isSubmitting = False, error = Some (f @ '' is required''),
                                  success = False\<rparr>\<rparr>)"
    if "?first = Some f" for f
    by (rule submit_validation_error) (simp_all add: v that)
  have c: "validateData opts data = Inr None"
    if "\<forall>f\<in>set ?fs. truthy (get_prop data f) \<and>
                      (\<exists>s. js_String (get_prop data f) = Inr s \<and> trim s \<noteq> [])"
  proof -
    have "\<forall>f\<in>set ?fs. field_blank data f \<noteq> Inr True"
      using that by (auto simp: field_blank_iff)
    then have "?first = None" by (simp add: find_None_iff)
    then show ?thesis by (simp add: v)
  qed
  have d: "field_blank data f = Inr True"
    if "map_of data f = None \<and> object_prototype f = None" for f
    using that by (simp add: field_blank_def get_prop_def)
  show ?thesis
    using a b c d by (simp add: field_blank_iff)
qed

text \<open>
  The record \<open>{name: "", email: "a@b.com"}\<close> with required fields \<open>name\<close>, \<open>email\<close>
  reports "name is required"; with \<open>name: "A"\<close> it passes; a \<open>name\<close> that holds only
  a no-break space (U+00A0) is reported as well.
\<close>

theorem validation_first_blank_field_witness:
  "submitToSheet ex_platform (ex_options\<lparr>validateRequired := [''name'', ''email'']\<rparr>)
     [(''name'', JStr ''''), (''email'', JStr ''a@b.com'')] ex_world =
     (Fulfilled, ex_world\<lparr>ui := \<lparr>isSubmitting = False, error = Some ''name is required'',
                                  success = False\<rparr>\<rparr>) \<and>
   validateData (ex_options\<lparr>validateRequired := [''name'', ''email'']\<rparr>)
     [(''name'', JStr ''A''), (''email'', JStr ''a@b.com'')] = Inr None \<and>
   submitToSheet ex_platform (ex_options\<lparr>validateRequired := [''name'', ''email'']\<rparr>)
     [(''name'', JStr [CHR 0xC2, CHR 0xA0]), (''email'', JStr ''a@b.com'')] ex_world =
     (Fulfilled, ex_world\<lparr>ui := \<lparr>isSubmitting = False, error = Some ''name is required'',
                                  success = False\<rparr>\<rparr>)"
proof -
  let ?opts = "ex_options\<lparr>validateRequired := [''name'', ''email'']\<rparr>"
  let ?bad = "[(''name'', JStr ''''), (''email'', JStr ''a@b.com'')]"
  let ?good = "[(''name'', JStr ''A''), (''email'', JStr ''a@b.com'')]"
  let ?nbsp = "[(''name'', JStr [CHR 0xC2, CHR 0xA0]), (''email'', JStr ''a@b.com'')]"
  have b1: "field_blank ?bad ''name'' = Inr True"
    and g1: "field_blank ?good ''name'' = Inr False"
    and g2: "field_blank ?good ''email'' = Inr False"
    and n1: "field_blank ?nbsp ''name'' = Inr True"
    by (simp_all add: eval_defs)
  have h1: "\<forall>f\<in>set (takeWhile (\<lambda>f. field_blank ?bad f \<noteq> Inr True) (validateRequired ?opts)).
              \<not> isl (field_blank ?bad f)"
    by (simp add: ex_defs b1)
  have h2: "\<forall>f\<in>set (takeWhile (\<lambda>f. field_blank ?good f \<noteq> Inr True) (validateRequired ?opts)).
              \<not> isl (field_blank ?good f)"
    by (simp add: ex_defs g1 g2)
  have h3: "\<forall>f\<in>set (takeWhile (\<lambda>f. field_blank ?nbsp f \<noteq> Inr True) (validateRequired ?opts)).
              \<not> isl (field_blank ?nbsp f)"
    by (simp add: ex_defs n1)
  have f1: "find (\<lambda>f. field_blank ?bad f = Inr True) (validateRequired ?opts) = Some ''name''"
    by (simp add: ex_defs b1)
  have f3: "find (\<lambda>f. field_blank ?nbsp f = Inr True) (validateRequired ?opts) = Some ''name''"
    by (simp add: ex_defs n1)
  have t1: "trim ''A'' \<noteq> []" and t2: "trim ''a@b.com'' \<noteq> []"
    by (simp_all add: eval_defs)
  have g: "\<forall>f\<in>set (validateRequired ?opts).
             truthy (get_prop ?good f) \<and>
             (\<exists>s. js_String (get_prop ?good f) = Inr s \<and> trim s \<noteq> [])"
    by (simp add: ex_defs get_prop_def t1 t2)
  show ?thesis
    using validation_first_blank_field [OF h1, of ex_platform ex_world]
      validation_first_blank_field [OF h2, of ex_platform ex_world]
      validation_first_blank_field [OF h3, of ex_platform ex_world] f1 f3 g
    by simp
qed

text \<open>
  C2 as stated fails in both directions. A required field that is present with the
  value \<open>0\<close> has the trimmed string form "0", not empty, so by the claim the record
  passes; the code reports "age is required". A required field \<open>toString\<close> is absent
  from the record \<open>{}\<close>, so by the claim validation fails; the code reads the inherited
  function and the record passes.
\<close>

theorem validation_zero_counterexample:
  "\<not> spec_field_fails [(''age'', JNum ''0'')] ''age'' \<and>
   submitToSheet ex_platform (ex_options\<lparr>validateRequired := [''age'']\<rparr>)
     [(''age'', JNum ''0'')] ex_world =
     (Fulfilled, ex_world\<lparr>ui := \<lparr>isSubmitting = False, error = Some ''age is required'',
                                  success = False\<rparr>\<rparr>) \<and>
   spec_field_fails [] ''toString'' \<and>
   validateData (ex_options\<lparr>validateRequired := [''toString'']\<rparr>) [] = Inr None"
  by (simp add: spec_field_fails_def submitToSheet_def validateData_def truthy_str_def
      setters ex_defs eval_defs)

text \<open>
  C4. With no endpoint configured: a record that passes validation makes
  \<open>submitToSheet\<close> fulfil with \<open>error\<close> set to the fixed configuration message,
  \<open>isSubmitting\<close> false, \<open>success\<close> false and the trace unchanged (no request); a record
  that fails validation reports the validation message, which is never the configuration
  message, so the configuration check comes second.
\<close>

theorem config_missing_after_validation:
  assumes "script_url pf = None"
  shows "(validateData opts data = Inr None \<longrightarrow>
            submitToSheet pf opts data w =
              (Fulfilled,
               w\<lparr>ui := \<lparr>isSubmitting = False,
                          error = Some ''Google Script URL not configured in environment variables'',
                          success = False\<rparr>\<rparr>)) \<and>
         (\<forall>m. validateData opts data = Inr (Some m) \<longrightarrow>
            m \<noteq> ''Google Script URL not configured in environment variables'' \<and>
            submitToSheet pf opts data w =
              (Fulfilled, w\<lparr>ui := \<lparr>isSubmitting = False, error = Some m, success = False\<rparr>\<rparr>))"
proof (intro conjI allI impI)
  assume "validateData opts data = Inr None"
  then show "submitToSheet pf opts data w =
      (Fulfilled,
       w\<lparr>ui := \<lparr>isSubmitting = False,
                  error = Some ''Google Script URL not configured in environment variables'',
                  success = False\<rparr>\<rparr>)"
    using assms by (simp add: submitToSheet_def truthy_str_def config_missing_def setters)
next
  fix m assume m: "validateData opts data = Inr (Some m)"
  then obtain f where f: "m = f @ '' is required''"
    unfolding validateData_def by (blast dest: validate_fields_message)
  have "last m = CHR ''d''" by (simp add: f)
  then show "m \<noteq> ''Google Script URL not configured in environment variables''"
    by auto
  have "m \<noteq> []" by (simp add: f)
  with m show "submitToSheet pf opts data w =
      (Fulfilled, w\<lparr>ui := \<lparr>isSubmitting = False, error = Some m, success = False\<rparr>\<rparr>)"
    by (rule submit_validation_error)
qed

text \<open>
  The record \<open>{name: "A", email: "a@b.com"}\<close> with no endpoint reports the configuration
  message; without \<open>name\<close> it reports "name is required".
\<close>

theorem config_missing_after_validation_witness:
  "submitToSheet (ex_platform\<lparr>script_url := None\<rparr>) (ex_options\<lparr>validateRequired := [''name'']\<rparr>)
     [(''name'', JStr ''A''), (''email'', JStr ''a@b.com'')] ex_world =
     (Fulfilled,
      ex_world\<lparr>ui := \<lparr>isSubmitting = False,
                       error = Some ''Google Script URL not configured in environment variables'',
                       success = False\<rparr>\<rparr>) \<and>
   submitToSheet (ex_platform\<lparr>script_url := None\<rparr>) (ex_options\<lparr>validateRequired := [''name'']\<rparr>)
     [(''email'', JStr ''a@b.com'')] ex_world =
     (Fulfilled,
      ex_world\<lparr>ui := \<lparr>isSubmitting = False, error = Some ''name is required'',
                       success = False\<rparr>\<rparr>)"
proof -
  let ?pf = "ex_platform\<lparr>script_url := None\<rparr>"
  let ?opts = "ex_options\<lparr>validateRequired := [''name'']\<rparr>"
  have u: "script_url ?pf = None" by simp
  have a: "validateData ?opts [(''name'', JStr ''A''), (''email'', JStr ''a@b.com'')] = Inr None"
    by (simp add: validateData_def ex_defs eval_defs)
  have b: "validateData ?opts [(''email'', JStr ''a@b.com'')] = Inr (Some ''name is required'')"
    by (simp add: validateData_def ex_defs eval_defs)
  show ?thesis
    using config_missing_after_validation [OF u, of ?opts _ ex_world] a b
    by blast
qed

subsection \<open>The URL that is requested\<close>

text \<open>
  C1, as the code has it. For a record that passes validation, with an endpoint that is
  configured and parses, and no transform: exactly one request is made, and its URL is
  the parsed endpoint with one parameter appended per key of the record, in the order in
  which \<open>Object.entries\<close> lists the keys (array-index keys first, by ascending index,
  then the other keys in insertion order; so in insertion order when no key is an array
  index), under the same key; the value is the string form of the entry's value, with
  the empty string for every falsy value (\<open>null\<close>, \<open>undefined\<close>, and also \<open>false\<close>,
  \<open>0\<close>, \<open>NaN\<close>), as \<open>String(value || "")\<close> computes it. (The list \<open>ps\<close> is that list
  of parameters; that it exists says that no coercion throws.)
\<close>

theorem params_without_transform:
  assumes "validateData opts data = Inr None"
    and "script_url pf = Some s" "s \<noteq> []" "newURL pf s = Inr u"
    and "transformData opts = None"
    and "list_all2 (\<lambda>(k, v) (k', str). k' = k \<and>
            js_String (if truthy v then v else JStr '''') = Inr str) (object_entries data) ps"
  shows "fetched (trace (snd (submitToSheet pf opts data w))) =
           fetched (trace w) @ [u\<lparr>searchParams := searchParams u @ ps\<rparr>] \<and>
         length ps = length data \<and>
         map fst ps = map fst (object_entries data) \<and>
         object_entries data =
           sort_key index_key (filter (\<lambda>e. array_index (fst e) \<noteq> None) data) @
           filter (\<lambda>e. array_index (fst e) = None) data \<and>
         ((\<forall>e\<in>set data. array_index (fst e) = None) \<longrightarrow> map fst ps = map fst data)"
proof -
  have fd: "(case transformData opts of None \<Rightarrow> Inr data | Some f \<Rightarrow> f data) = Inr data"
    by (simp add: assms(5))
  have l: "list_all2 (\<lambda>(k, v) (k', s). k' = k \<and> js_String (or_empty v) = Inr s)
             (object_entries data) ps"
    using assms(6) by (simp add: or_empty_def)
  then have "append_entries u data = Inr (u\<lparr>searchParams := searchParams u @ ps\<rparr>)"
    by (rule append_entries_params)
  with assms(1-4) fd have
    "fetched (trace (snd (submitToSheet pf opts data w))) =
       fetched (trace w) @ [u\<lparr>searchParams := searchParams u @ ps\<rparr>]"
    by (rule submit_fetches)
  moreover have keys: "map fst ps = map fst (object_entries data)"
    using l by (rule params_keys)
  moreover have "length ps = length data"
    using l by (simp add: list_all2_lengthD [symmetric] length_object_entries)
  moreover have "map fst ps = map fst data" if "\<forall>e\<in>set data. array_index (fst e) = None"
    using keys that by (simp add: object_entries_plain)
  ultimately show ?thesis by (simp add: object_entries_def)
qed

text \<open>
  A record with a zero, a null, a large number, a fraction and an array-index key: the
  falsy values are sent as empty strings, the numbers in their string forms, and the key
  \<open>7\<close> first.
\<close>

theorem params_without_transform_witness:
  "fetched (trace (snd (submitToSheet ex_platform (ex_options\<lparr>validateRequired := [''name'']\<rparr>)
      [(''name'', JStr ''A''), (''age'', JNum ''0''), (''note'', JNull), (''n'', JNum ''1e+21''),
       (''7'', JNum ''0.5'')] ex_world))) =
     [\<lparr>href = ''https://script.example/exec'',
       searchParams = [(''7'', ''0.5''), (''name'', ''A''), (''age'', ''''), (''note'', ''''),
                       (''n'', ''1e+21'')]\<rparr>]"
proof -
  let ?opts = "ex_options\<lparr>validateRequired := [''name'']\<rparr>"
  let ?data = "[(''name'', JStr ''A''), (''age'', JNum ''0''), (''note'', JNull),
                (''n'', JNum ''1e+21''), (''7'', JNum ''0.5'')]"
  have v: "validateData ?opts ?data = Inr None"
    by (simp add: validateData_def ex_defs eval_defs)
  have s: "script_url ex_platform = Some ''https://script.example/exec''"
    and n: "''https://script.example/exec'' \<noteq> []"
    and u: "newURL ex_platform ''https://script.example/exec'' =
              Inr \<lparr>href = ''https://script.example/exec'', searchParams = []\<rparr>"
    and t: "transformData ?opts = None"
    by (simp_all add: ex_defs)
  have e: "object_entries ?data =
             [(''7'', JNum ''0.5''), (''name'', JStr ''A''), (''age'', JNum ''0''),
              (''note'', JNull), (''n'', JNum ''1e+21'')]"
    by (simp add: entries_defs)
  have p: "list_all2 (\<lambda>(k, v) (k', str). k' = k \<and>
             js_String (if truthy v then v else JStr '''') = Inr str) (object_entries ?data)
             [(''7'', ''0.5''), (''name'', ''A''), (''age'', ''''), (''note'', ''''),
              (''n'', ''1e+21'')]"
    by (simp add: e)
  show ?thesis
    using params_without_transform [OF v s n u t p, of ex_world]
    by (simp add: ex_defs)
qed

text \<open>
  C1 as stated fails on the record \<open>{age: 0}\<close>: the value is neither \<open>null\<close> nor
  \<open>undefined\<close>, so the claim's parameter is \<open>age=0\<close>; the code sends \<open>age=\<close>. It
  fails as well on the record \<open>{b: "x", 1: "y"}\<close>: the insertion order is \<open>b\<close>, \<open>1\<close>;
  the code sends \<open>1\<close> first.
\<close>

theorem params_zero_counterexample:
  "fetched (trace (snd (submitToSheet ex_platform ex_options [(''age'', JNum ''0'')] ex_world))) =
     [\<lparr>href = ''https://script.example/exec'', searchParams = [(''age'', '''')]\<rparr>] \<and>
   spec_params [(''age'', JNum ''0'')] = Inr [(''age'', ''0'')] \<and>
   fetched (trace (snd (submitToSheet ex_platform ex_options
      [(''b'', JStr ''x''), (''1'', JStr ''y'')] ex_world))) =
     [\<lparr>href = ''https://script.example/exec'', searchParams = [(''1'', ''y''), (''b'', ''x'')]\<rparr>] \<and>
   spec_params [(''b'', JStr ''x''), (''1'', JStr ''y'')] = Inr [(''b'', ''x''), (''1'', ''y'')]"
  by (simp add: run_defs setters ex_defs eval_defs spec_param_value_def)

text \<open>
  C7. For a record that passes validation, with an endpoint that is configured and parses:
  the mapping \<open>fd\<close> that is serialized is the output of the transform on the record when
  a transform is supplied, and the record itself when none is. Exactly one request is
  made; the parameters appended to the endpoint are built from \<open>fd\<close> alone: they have the
  keys of \<open>fd\<close> in the order in which \<open>Object.entries\<close> lists them (the order of \<open>fd\<close>
  when no key is an array index), and each of them is an entry of \<open>fd\<close> with its value
  coerced, so an entry of the original record appears only if the transform's output
  holds it.
\<close>

theorem params_follow_transform:
  assumes "validateData opts data = Inr None"
    and "script_url pf = Some s" "s \<noteq> []" "newURL pf s = Inr u"
    and "(transformData opts = None \<and> fd = data) \<or>
         (\<exists>f. transformData opts = Some f \<and> f data = Inr fd)"
    and "list_all2 (\<lambda>(k, v) (k', str). k' = k \<and> js_String (or_empty v) = Inr str)
           (object_entries fd) ps"
  shows "fetched (trace (snd (submitToSheet pf opts data w))) =
           fetched (trace w) @ [u\<lparr>searchParams := searchParams u @ ps\<rparr>] \<and>
         map fst ps = map fst (object_entries fd) \<and>
         ((\<forall>e\<in>set fd. array_index (fst e) = None) \<longrightarrow> map fst ps = map fst fd) \<and>
         (\<forall>p\<in>set ps. \<exists>v. (fst p, v) \<in> set fd \<and> js_String (or_empty v) = Inr (snd p))"
proof -
  have fd: "(case transformData opts of None \<Rightarrow> Inr data | Some f \<Rightarrow> f data) = Inr fd"
    using assms(5) by auto
  have "append_entries u fd = Inr (u\<lparr>searchParams := searchParams u @ ps\<rparr>)"
    using assms(6) by (rule append_entries_params)
  with assms(1-4) fd have
    "fetched (trace (snd (submitToSheet pf opts data w))) =
       fetched (trace w) @ [u\<lparr>searchParams := searchParams u @ ps\<rparr>]"
    by (rule submit_fetches)
  moreover have keys: "map fst ps = map fst (object_entries fd)"
    using assms(6) by (rule params_keys)
  moreover have "map fst ps = map fst fd" if "\<forall>e\<in>set fd. array_index (fst e) = None"
    using keys that by (simp add: object_entries_plain)
  moreover have "\<forall>p\<in>set ps. \<exists>v. (fst p, v) \<in> set fd \<and> js_String (or_empty v) = Inr (snd p)"
    using params_from_entries [OF assms(6)] by (simp add: set_object_entries)
  ultimately show ?thesis by simp
qed

text \<open>
  The record \<open>{name: "A", age: 5}\<close> with a transform to \<open>{n: name, a: age}\<close> is sent as
  \<open>?n=A&a=5\<close>.
\<close>

theorem params_follow_transform_witness:
  "fetched (trace (snd (submitToSheet ex_platform
      (ex_options\<lparr>transformData :=
          Some (\<lambda>d. Inr [(''n'', get_prop d ''name''), (''a'', get_prop d ''age'')])\<rparr>)
      [(''name'', JStr ''A''), (''age'', JNum ''5'')] ex_world))) =
     [\<lparr>href = ''https://script.example/exec'', searchParams = [(''n'', ''A''), (''a'', ''5'')]\<rparr>]"
proof -
  let ?f = "\<lambda>d. Inr [(''n'', get_prop d ''name''), (''a'', get_prop d ''age'')] :: thrown + jsrecord"
  let ?opts = "ex_options\<lparr>transformData := Some ?f\<rparr>"
  let ?data = "[(''name'', JStr ''A''), (''age'', JNum ''5'')]"
  let ?fd = "[(''n'', JStr ''A''), (''a'', JNum ''5'')]"
  have v: "validateData ?opts ?data = Inr None"
    by (simp add: validateData_def ex_defs)
  have s: "script_url ex_platform = Some ''https://script.example/exec''"
    and n: "''https://script.example/exec'' \<noteq> []"
    and u: "newURL ex_platform ''https://script.example/exec'' =
              Inr \<lparr>href = ''https://script.example/exec'', searchParams = []\<rparr>"
    by (simp_all add: ex_defs)
  have t: "(transformData ?opts = None \<and> ?fd = ?data) \<or>
           (\<exists>f. transformData ?opts = Some f \<and> f ?data = Inr ?fd)"
    by (simp add: get_prop_def)
  have e: "object_entries ?fd = ?fd"
    by (simp add: entries_defs)
  have p: "list_all2 (\<lambda>(k, v) (k', str). k' = k \<and> js_String (or_empty v) = Inr str)
             (object_entries ?fd) [(''n'', ''A''), (''a'', ''5'')]"
    by (simp add: e or_empty_def)
  show ?thesis
    using params_follow_transform [OF v s n u t p, of ex_world]
    by (simp add: ex_defs)
qed

subsection \<open>Outcomes of the try block\<close>

text \<open>
  C5. For a record that passes validation with an endpoint configured: when the \<open>URL\<close>
  constructor, the transform, a coercion in the serialization or the request throws
  \<open>err\<close>, the final state has \<open>error\<close> equal to the message of \<open>err\<close> when \<open>err\<close> is
  an \<open>Error\<close> and to "Failed to submit data" otherwise, \<open>success\<close> false and
  \<open>isSubmitting\<close> false; \<open>onError\<close>, when supplied, is called exactly once, with an
  \<open>Error\<close> carrying that message; \<open>onSuccess\<close> is not called.
\<close>

theorem transport_failure_state:
  assumes "validateData opts data = Inr None"
    and "script_url pf = Some s" "s \<noteq> []"
    and "newURL pf s = Inl err \<or>
         (\<exists>u. newURL pf s = Inr u \<and>
            ((case transformData opts of None \<Rightarrow> Inr data | Some f \<Rightarrow> f data) = Inl err \<or>
             (\<exists>fd. (case transformData opts of None \<Rightarrow> Inr data | Some f \<Rightarrow> f data) = Inr fd \<and>
                (append_entries u fd = Inl err \<or>
                 (\<exists>u'. append_entries u fd = Inr u' \<and> fetch pf u' = Rejects err)))))"
  shows "ui (snd (submitToSheet pf opts data w)) =
           \<lparr>isSubmitting = False,
            error = Some (case err of ErrorObj m \<Rightarrow> m | NonError \<Rightarrow> ''Failed to submit data''),
            success = False\<rparr> \<and>
         error_calls (trace (snd (submitToSheet pf opts data w))) =
           error_calls (trace w) @
           (if onError opts = None then []
            else [ErrorObj (case err of ErrorObj m \<Rightarrow> m | NonError \<Rightarrow> ''Failed to submit data'')]) \<and>
         success_calls (trace (snd (submitToSheet pf opts data w))) = success_calls (trace w)"
proof -
  let ?w1 = "w\<lparr>ui := \<lparr>isSubmitting = True, error = None, success = False\<rparr>\<rparr>"
  from assms(4) have "\<exists>w2. try_block pf opts s data ?w1 = (Threw err, w2) \<and> ui w2 = ui ?w1 \<and>
      error_calls (trace w2) = error_calls (trace w) \<and>
      success_calls (trace w2) = success_calls (trace w)"
    by (auto simp: try_block_def setters error_calls_append success_calls_append)
  then obtain w2 where t: "try_block pf opts s data ?w1 = (Threw err, w2)"
    and u: "ui w2 = ui ?w1"
    and e: "error_calls (trace w2) = error_calls (trace w)"
    and c: "success_calls (trace w2) = success_calls (trace w)"
    by blast
  show ?thesis
    unfolding submit_enters_try [OF assms(1-3)] t
    by (simp add: catch_block_result setters u e c error_calls_append success_calls_append
        errorMessage_def split: option.splits)
qed

text \<open>
  A request that rejects with the \<open>Error\<close> "Failed to fetch", with an \<open>onError\<close> that
  returns; and a transform that throws a value that is not an \<open>Error\<close>.
\<close>

theorem transport_failure_state_witness:
  "ui (snd (submitToSheet (ex_platform\<lparr>fetch := (\<lambda>u. Rejects (ErrorObj ''Failed to fetch''))\<rparr>)
      (ex_options\<lparr>onError := Some (\<lambda>e. None)\<rparr>) [(''name'', JStr ''A'')] ex_world)) =
     \<lparr>isSubmitting = False, error = Some ''Failed to fetch'', success = False\<rparr> \<and>
   error_calls (trace (snd (submitToSheet
      (ex_platform\<lparr>fetch := (\<lambda>u. Rejects (ErrorObj ''Failed to fetch''))\<rparr>)
      (ex_options\<lparr>onError := Some (\<lambda>e. None)\<rparr>) [(''name'', JStr ''A'')] ex_world))) =
     [ErrorObj ''Failed to fetch''] \<and>
   ui (snd (submitToSheet ex_platform (ex_options\<lparr>transformData := Some (\<lambda>d. Inl NonError)\<rparr>)
      [(''name'', JStr ''A'')] ex_world)) =
     \<lparr>isSubmitting = False, error = Some ''Failed to submit data'', success = False\<rparr>"
proof -
  let ?pf = "ex_platform\<lparr>fetch := (\<lambda>u. Rejects (ErrorObj ''Failed to fetch''))\<rparr>"
  let ?opts = "ex_options\<lparr>onError := Some (\<lambda>e. None)\<rparr>"
  let ?opts' = "ex_options\<lparr>transformData := Some (\<lambda>d. Inl NonError)\<rparr>"
  let ?data = "[(''name'', JStr ''A'')]"
  let ?s = "''https://script.example/exec''"
  have v: "validateData ?opts ?data = Inr None" and v': "validateData ?opts' ?data = Inr None"
    by (simp_all add: validateData_def ex_defs)
  have s: "script_url ?pf = Some ?s" and s': "script_url ex_platform = Some ?s"
    and n: "?s \<noteq> []"
    by (simp_all add: ex_defs)
  have a: "newURL ?pf ?s = Inl (ErrorObj ''Failed to fetch'') \<or>
         (\<exists>u. newURL ?pf ?s = Inr u \<and>
            ((case transformData ?opts of None \<Rightarrow> Inr ?data | Some f \<Rightarrow> f ?data) =
               Inl (ErrorObj ''Failed to fetch'') \<or>
             (\<exists>fd. (case transformData ?opts of None \<Rightarrow> Inr ?data | Some f \<Rightarrow> f ?data) = Inr fd \<and>
                (append_entries u fd = Inl (ErrorObj ''Failed to fetch'') \<or>
                 (\<exists>u'. append_entries u fd = Inr u' \<and>
                    fetch ?pf u' = Rejects (ErrorObj ''Failed to fetch''))))))"
    by (simp add: ex_defs or_empty_def append_param_def entries_defs)
  have b: "newURL ex_platform ?s = Inl NonError \<or>
         (\<exists>u. newURL ex_platform ?s = Inr u \<and>
            ((case transformData ?opts' of None \<Rightarrow> Inr ?data | Some f \<Rightarrow> f ?data) = Inl NonError \<or>
             (\<exists>fd. (case transformData ?opts' of None \<Rightarrow> Inr ?data | Some f \<Rightarrow> f ?data) = Inr fd \<and>
                (append_entries u fd = Inl NonError \<or>
                 (\<exists>u'. append_entries u fd = Inr u' \<and> fetch ex_platform u' = Rejects NonError)))))"
    by (simp add: ex_defs)
  show ?thesis
    using transport_failure_state [OF v s n a, of ex_world]
      transport_failure_state [OF v' s' n b, of ex_world]
    by (simp add: ex_defs)
qed

text \<open>
  C6, as the code has it. For an attempt that no other call of \<open>submitToSheet\<close> or
  \<open>reset\<close> overlaps, on a record that passes validation with an endpoint that is
  configured and parses, when the transform, the serialization and the request throw
  nothing, the request resolves, and \<open>onSuccess\<close> (if supplied) returns without throwing:
  the promise fulfils, the final state has \<open>success\<close> true, \<open>error\<close> null and
  \<open>isSubmitting\<close> false, and \<open>onSuccess\<close>, when supplied, is called exactly once, with the
  original record \<open>data\<close> (not the transformed mapping \<open>fd\<close>); \<open>onError\<close> is not called.
\<close>

theorem success_state:
  assumes "validateData opts data = Inr None"
    and "script_url pf = Some s" "s \<noteq> []" "newURL pf s = Inr u"
    and "(case transformData opts of None \<Rightarrow> Inr data | Some f \<Rightarrow> f data) = Inr fd"
    and "append_entries u fd = Inr u'"
    and "fetch pf u' = Resolves"
    and "\<forall>cb. onSuccess opts = Some cb \<longrightarrow> cb data = None"
  shows "submitToSheet pf opts data w =
           (Fulfilled,
            w\<lparr>ui := \<lparr>isSubmitting = False, error = None, success = True\<rparr>,
              trace := trace w @ Fetch u' # (if onSuccess opts = None then [] else [OnSuccess data])\<rparr>) \<and>
         success_calls (trace (snd (submitToSheet pf opts data w))) =
           success_calls (trace w) @ (if onSuccess opts = None then [] else [data]) \<and>
         error_calls (trace (snd (submitToSheet pf opts data w))) = error_calls (trace w)"
  unfolding submit_enters_try [OF assms(1-3)] try_block_sends [OF assms(4-6)]
  using assms(7,8)
  by (auto simp: call_onSuccess_def setters success_calls_append error_calls_append
      split: option.splits)

text \<open>
  With a transform that renames the field and an \<open>onSuccess\<close> that returns, the callback
  gets the record as it was passed in.
\<close>

theorem success_state_witness:
  "submitToSheet ex_platform
      (ex_options\<lparr>onSuccess := Some (\<lambda>d. None),
                  transformData := Some (\<lambda>d. Inr [(''n'', get_prop d ''name'')])\<rparr>)
      [(''name'', JStr ''A'')] ex_world =
     (Fulfilled,
      \<lparr>ui = \<lparr>isSubmitting = False, error = None, success = True\<rparr>,
       trace = [Fetch \<lparr>href = ''https://script.example/exec'', searchParams = [(''n'', ''A'')]\<rparr>,
                OnSuccess [(''name'', JStr ''A'')]]\<rparr>)"
proof -
  let ?opts = "ex_options\<lparr>onSuccess := Some (\<lambda>d. None),
                  transformData := Some (\<lambda>d. Inr [(''n'', get_prop d ''name'')])\<rparr>"
  let ?data = "[(''name'', JStr ''A'')]"
  let ?s = "''https://script.example/exec''"
  let ?u = "\<lparr>href = ?s, searchParams = []\<rparr>"
  let ?u' = "\<lparr>href = ?s, searchParams = [(''n'', ''A'')]\<rparr>"
  have v: "validateData ?opts ?data = Inr None"
    by (simp add: validateData_def ex_defs)
  have s: "script_url ex_platform = Some ?s" and n: "?s \<noteq> []"
    and u: "newURL ex_platform ?s = Inr ?u"
    and f: "fetch ex_platform ?u' = Resolves"
    by (simp_all add: ex_defs)
  have t: "(case transformData ?opts of None \<Rightarrow> Inr ?data | Some f \<Rightarrow> f ?data) =
             Inr [(''n'', JStr ''A'')]"
    by (simp add: get_prop_def)
  have a: "append_entries ?u [(''n'', JStr ''A'')] = Inr ?u'"
    by (simp add: or_empty_def append_param_def entries_defs)
  have c: "\<forall>cb. onSuccess ?opts = Some cb \<longrightarrow> cb ?data = None"
    by simp
  show ?thesis
    using success_state [OF v s n u t a f c, of ex_world]
    by (simp add: ex_defs)
qed

text \<open>
  C6 as stated fails when \<open>onSuccess\<close> throws: validation and the configuration check
  pass, the transform, the serialization and the request throw nothing, and yet the final
  \<open>error\<close> is the message thrown by the callback, not null.
\<close>

theorem success_state_counterexample:
  "submitToSheet ex_platform (ex_options\<lparr>onSuccess := Some (\<lambda>d. Some (ErrorObj ''boom''))\<rparr>)
      [(''name'', JStr ''A'')] ex_world =
     (Fulfilled,
      \<lparr>ui = \<lparr>isSubmitting = False, error = Some ''boom'', success = True\<rparr>,
       trace = [Fetch \<lparr>href = ''https://script.example/exec'', searchParams = [(''name'', ''A'')]\<rparr>,
                OnSuccess [(''name'', JStr ''A'')],
                ConsoleError (ErrorObj ''boom'')]\<rparr>)"
  by (simp add: run_defs setters ex_defs eval_defs)

text \<open>
  C10, as the code has it. When the request resolved and \<open>onSuccess\<close> throws \<open>err\<close>, the
  throw is handled by the \<open>catch\<close> block: \<open>error\<close> is set to the message of \<open>err\<close> (to
  "Failed to submit data" when \<open>err\<close> is not an \<open>Error\<close>), \<open>onError\<close>, when supplied,
  is called once with an \<open>Error\<close> carrying that message, \<open>success\<close> stays true and
  \<open>isSubmitting\<close> is set to false; the promise fulfils unless \<open>onError\<close> throws in turn.
  So \<open>success\<close> is truthy, and \<open>error\<close> is truthy too except when the thrown \<open>Error\<close>
  has the empty message.
\<close>

theorem throwing_onSuccess_state:
  assumes "validateData opts data = Inr None"
    and "script_url pf = Some s" "s \<noteq> []" "newURL pf s = Inr u"
    and "(case transformData opts of None \<Rightarrow> Inr data | Some f \<Rightarrow> f data) = Inr fd"
    and "append_entries u fd = Inr u'"
    and "fetch pf u' = Resolves"
    and "onSuccess opts = Some cb" "cb data = Some err"
  shows "ui (snd (submitToSheet pf opts data w)) =
           \<lparr>isSubmitting = False,
            error = Some (case err of ErrorObj m \<Rightarrow> m | NonError \<Rightarrow> ''Failed to submit data''),
            success = True\<rparr> \<and>
         error_calls (trace (snd (submitToSheet pf opts data w))) =
           error_calls (trace w) @
           (if onError opts = None then []
            else [ErrorObj (case err of ErrorObj m \<Rightarrow> m | NonError \<Rightarrow> ''Failed to submit data'')]) \<and>
         fst (submitToSheet pf opts data w) =
           (case onError opts of
              None \<Rightarrow> Fulfilled
            | Some h \<Rightarrow>
                (case h (ErrorObj (case err of ErrorObj m \<Rightarrow> m
                                            | NonError \<Rightarrow> ''Failed to submit data'')) of
                   None \<Rightarrow> Fulfilled
                 | Some t \<Rightarrow> Rejected t)) \<and>
         (truthy_str (error (ui (snd (submitToSheet pf opts data w)))) \<longleftrightarrow>
            err \<noteq> ErrorObj '''')"
  unfolding submit_enters_try [OF assms(1-3)] try_block_sends [OF assms(4-6)]
  using assms(7-9)
  by (cases err)
     (auto simp: call_onSuccess_def catch_block_result setters error_calls_append
        errorMessage_def truthy_str_def split: option.splits)

text \<open>An \<open>onSuccess\<close> that throws the \<open>Error\<close> "boom", with an \<open>onError\<close> that returns.\<close>

theorem throwing_onSuccess_state_witness:
  "submitToSheet ex_platform
      (ex_options\<lparr>onSuccess := Some (\<lambda>d. Some (ErrorObj ''boom'')), onError := Some (\<lambda>e. None)\<rparr>)
      [(''name'', JStr ''A'')] ex_world =
     (Fulfilled,
      \<lparr>ui = \<lparr>isSubmitting = False, error = Some ''boom'', success = True\<rparr>,
       trace = [Fetch \<lparr>href = ''https://script.example/exec'', searchParams = [(''name'', ''A'')]\<rparr>,
                OnSuccess [(''name'', JStr ''A'')],
                ConsoleError (ErrorObj ''boom''),
                OnError (ErrorObj ''boom'')]\<rparr>) \<and>
   truthy_str (error (ui (snd (submitToSheet ex_platform
      (ex_options\<lparr>onSuccess := Some (\<lambda>d. Some (ErrorObj ''boom'')), onError := Some (\<lambda>e. None)\<rparr>)
      [(''name'', JStr ''A'')] ex_world))))"
proof -
  let ?cb = "\<lambda>d::jsrecord. Some (ErrorObj ''boom'')"
  let ?opts = "ex_options\<lparr>onSuccess := Some ?cb, onError := Some (\<lambda>e. None)\<rparr>"
  let ?data = "[(''name'', JStr ''A'')]"
  let ?s = "''https://script.example/exec''"
  let ?u = "\<lparr>href = ?s, searchParams = []\<rparr>"
  let ?u' = "\<lparr>href = ?s, searchParams = [(''name'', ''A'')]\<rparr>"
  have v: "validateData ?opts ?data = Inr None"
    by (simp add: validateData_def ex_defs)
  have s: "script_url ex_platform = Some ?s" and n: "?s \<noteq> []"
    and u: "newURL ex_platform ?s = Inr ?u"
    and f: "fetch ex_platform ?u' = Resolves"
    by (simp_all add: ex_defs)
  have t: "(case transformData ?opts of None \<Rightarrow> Inr ?data | Some f \<Rightarrow> f ?data) = Inr ?data"
    by (simp add: ex_defs)
  have a: "append_entries ?u ?data = Inr ?u'"
    by (simp add: or_empty_def append_param_def entries_defs)
  have c: "onSuccess ?opts = Some ?cb" and d: "?cb ?data = Some (ErrorObj ''boom'')"
    by simp_all
  have r: "submitToSheet ex_platform ?opts ?data ex_world =
     (Fulfilled,
      \<lparr>ui = \<lparr>isSubmitting = False, error = Some ''boom'', success = True\<rparr>,
       trace = [Fetch ?u', OnSuccess ?data, ConsoleError (ErrorObj ''boom''),
                OnError (ErrorObj ''boom'')]\<rparr>)"
    by (simp add: run_defs setters ex_defs eval_defs)
  show ?thesis
    using throwing_onSuccess_state [OF v s n u t a f c d, of ex_world] r
    by simp
qed

text \<open>
  C10 as stated fails when \<open>onSuccess\<close> throws an \<open>Error\<close> without a message
  (\<open>throw new Error()\<close>): \<open>error\<close> is then the empty string, which is falsy, while
  \<open>success\<close> is true.
\<close>

theorem throwing_onSuccess_counterexample:
  "success (ui (snd (submitToSheet ex_platform
      (ex_options\<lparr>onSuccess := Some (\<lambda>d. Some (ErrorObj ''''))\<rparr>) [(''name'', JStr ''A'')] ex_world))) \<and>
   error (ui (snd (submitToSheet ex_platform
      (ex_options\<lparr>onSuccess := Some (\<lambda>d. Some (ErrorObj ''''))\<rparr>) [(''name'', JStr ''A'')] ex_world))) =
     Some '''' \<and>
   \<not> truthy_str (error (ui (snd (submitToSheet ex_platform
      (ex_options\<lparr>onSuccess := Some (\<lambda>d. Some (ErrorObj ''''))\<rparr>) [(''name'', JStr ''A'')] ex_world))))"
  by (simp add: run_defs setters ex_defs eval_defs)

subsection \<open>The status fields together\<close>

text \<open>
  C3, as the code has it, for an attempt that no other call of \<open>submitToSheet\<close> or
  \<open>reset\<close> overlaps. Provided that no coercion of a required field throws, that
  \<open>onSuccess\<close> (if supplied) does not throw, and that the reported \<open>error\<close> is not the
  empty string: after every completed attempt (the promise has settled) \<open>isSubmitting\<close>
  is false and exactly one of \<open>error\<close> and \<open>success\<close> is truthy; while the attempt is
  suspended at the request, \<open>isSubmitting\<close> is true, \<open>error\<close> is null and \<open>success\<close> is
  false; in the initial (idle) state \<open>error\<close> is null and \<open>success\<close> is false.
\<close>

theorem status_exclusive:
  assumes "\<forall>f\<in>set (validateRequired opts). \<not> isl (field_blank data f)"
    and "\<forall>cb. onSuccess opts = Some cb \<longrightarrow> cb data = None"
    and "error (ui (snd (submitToSheet pf opts data w))) \<noteq> Some ''''"
  shows "(fst (submitToSheet pf opts data w) \<noteq> Pending \<longrightarrow>
            \<not> isSubmitting (ui (snd (submitToSheet pf opts data w))) \<and>
            (truthy_str (error (ui (snd (submitToSheet pf opts data w)))) \<noteq>
             success (ui (snd (submitToSheet pf opts data w))))) \<and>
         (fst (submitToSheet pf opts data w) = Pending \<longrightarrow>
            isSubmitting (ui (snd (submitToSheet pf opts data w))) \<and>
            error (ui (snd (submitToSheet pf opts data w))) = None \<and>
            \<not> success (ui (snd (submitToSheet pf opts data w)))) \<and>
         error initial_state = None \<and> \<not> success initial_state"
proof -
  let ?w1 = "w\<lparr>ui := \<lparr>isSubmitting = True, error = None, success = False\<rparr>\<rparr>"
  have idle: "error initial_state = None \<and> \<not> success initial_state"
    by (simp add: initial_state_def)
  consider (invalid) m where "validateData opts data = Inr (Some m)" "m \<noteq> []"
    | (unset) "validateData opts data = Inr None" "script_url pf = None \<or> script_url pf = Some []"
    | (run) s where "validateData opts data = Inr None" "script_url pf = Some s" "s \<noteq> []"
    using validateData_total [OF assms(1)] by (cases "script_url pf") auto
  then show ?thesis
  proof cases
    case invalid
    then show ?thesis
      by (simp add: submit_validation_error truthy_str_def idle)
  next
    case unset
    then show ?thesis
      by (auto simp: submitToSheet_def truthy_str_def config_missing_def setters idle)
  next
    case run
    obtain c w2 where t: "try_block pf opts s data ?w1 = (c, w2)"
      by (cases "try_block pf opts s data ?w1")
    from try_block_state [OF t] assms(2)
    consider "c = Suspended" "ui w2 = ui ?w1"
      | "c = Normal" "ui w2 = (ui ?w1)\<lparr>success := True\<rparr>"
      | t where "c = Threw t" "ui w2 = ui ?w1"
      by auto
    then show ?thesis
    proof cases
      case 1
      then show ?thesis
        unfolding submit_enters_try [OF run] t by (simp add: idle)
    next
      case 2
      then show ?thesis
        unfolding submit_enters_try [OF run] t by (simp add: idle setters truthy_str_def)
    next
      case 3
      with assms(3) show ?thesis
        unfolding submit_enters_try [OF run] t
        by (simp add: idle setters truthy_str_def catch_block_result split: option.splits)
    qed
  qed
qed

text \<open>
  A rejected request leaves \<open>error\<close> truthy and \<open>success\<close> false; a request that never
  settles leaves the hook submitting with both fields clear.
\<close>

theorem status_exclusive_witness:
  "fst (submitToSheet (ex_platform\<lparr>fetch := (\<lambda>u. Rejects (ErrorObj ''Failed to fetch''))\<rparr>)
      (ex_options\<lparr>validateRequired := [''name'']\<rparr>) [(''name'', JStr ''A'')] ex_world) = Fulfilled \<and>
   truthy_str (error (ui (snd (submitToSheet
      (ex_platform\<lparr>fetch := (\<lambda>u. Rejects (ErrorObj ''Failed to fetch''))\<rparr>)
      (ex_options\<lparr>validateRequired := [''name'']\<rparr>) [(''name'', JStr ''A'')] ex_world)))) \<and>
   \<not> success (ui (snd (submitToSheet
      (ex_platform\<lparr>fetch := (\<lambda>u. Rejects (ErrorObj ''Failed to fetch''))\<rparr>)
      (ex_options\<lparr>validateRequired := [''name'']\<rparr>) [(''name'', JStr ''A'')] ex_world))) \<and>
   fst (submitToSheet (ex_platform\<lparr>fetch := (\<lambda>u. NeverSettles)\<rparr>)
      (ex_options\<lparr>validateRequired := [''name'']\<rparr>) [(''name'', JStr ''A'')] ex_world) = Pending \<and>
   isSubmitting (ui (snd (submitToSheet (ex_platform\<lparr>fetch := (\<lambda>u. NeverSettles)\<rparr>)
      (ex_options\<lparr>validateRequired := [''name'']\<rparr>) [(''name'', JStr ''A'')] ex_world)))"
proof -
  let ?pf = "ex_platform\<lparr>fetch := (\<lambda>u. Rejects (ErrorObj ''Failed to fetch''))\<rparr>"
  let ?pf' = "ex_platform\<lparr>fetch := (\<lambda>u. NeverSettles)\<rparr>"
  let ?opts = "ex_options\<lparr>validateRequired := [''name'']\<rparr>"
  let ?data = "[(''name'', JStr ''A'')]"
  have b: "field_blank ?data ''name'' = Inr False"
    by (simp add: eval_defs)
  have h: "\<forall>f\<in>set (validateRequired ?opts). \<not> isl (field_blank ?data f)"
    by (simp add: ex_defs b)
  have c: "\<forall>cb. onSuccess ?opts = Some cb \<longrightarrow> cb ?data = None"
    by (simp add: ex_defs)
  have r: "submitToSheet ?pf ?opts ?data ex_world =
     (Fulfilled,
      \<lparr>ui = \<lparr>isSubmitting = False, error = Some ''Failed to fetch'', success = False\<rparr>,
       trace = [Fetch \<lparr>href = ''https://script.example/exec'', searchParams = [(''name'', ''A'')]\<rparr>,
                ConsoleError (ErrorObj ''Failed to fetch'')]\<rparr>)"
    by (simp add: run_defs setters ex_defs eval_defs)
  have r': "submitToSheet ?pf' ?opts ?data ex_world =
     (Pending,
      \<lparr>ui = \<lparr>isSubmitting = True, error = None, success = False\<rparr>,
       trace = [Fetch \<lparr>href = ''https://script.example/exec'', searchParams = [(''name'', ''A'')]\<rparr>]\<rparr>)"
    by (simp add: run_defs setters ex_defs eval_defs)
  have e: "error (ui (snd (submitToSheet ?pf ?opts ?data ex_world))) \<noteq> Some ''''"
    and e': "error (ui (snd (submitToSheet ?pf' ?opts ?data ex_world))) \<noteq> Some ''''"
    by (simp_all add: r r')
  show ?thesis
    using status_exclusive [OF h c e] status_exclusive [OF h c e']
    by (simp add: r r')
qed

text \<open>
  C3 as stated fails when \<open>onSuccess\<close> throws after a request that resolved: the attempt
  completes with \<open>error\<close> and \<open>success\<close> both truthy.
\<close>

theorem status_exclusive_counterexample:
  "fst (submitToSheet ex_platform
      (ex_options\<lparr>onSuccess := Some (\<lambda>d. Some (ErrorObj ''callback failed'')),
                  validateRequired := [''email'']\<rparr>)
      [(''email'', JStr ''a@b.com'')] ex_world) = Fulfilled \<and>
   truthy_str (error (ui (snd (submitToSheet ex_platform
      (ex_options\<lparr>onSuccess := Some (\<lambda>d. Some (ErrorObj ''callback failed'')),
                  validateRequired := [''email'']\<rparr>)
      [(''email'', JStr ''a@b.com'')] ex_world)))) \<and>
   success (ui (snd (submitToSheet ex_platform
      (ex_options\<lparr>onSuccess := Some (\<lambda>d. Some (ErrorObj ''callback failed'')),
                  validateRequired := [''email'']\<rparr>)
      [(''email'', JStr ''a@b.com'')] ex_world)))"
  by (simp add: run_defs setters ex_defs eval_defs)

subsection \<open>The promise\<close>




end
